theory Spec2Isabelle
  imports
    Main
    "HOL-Library.Sublist"
    "HOL-Library.Char_ord"
    "HOL-Library.List_Lexorder"
begin

section \<open>Illumina components (npg\_irods/illumina.py)\<close>

subsection \<open>Enumerations\<close>

text \<open>
  \<^verbatim>\<open>TagIndex\<close>: the tag indexes with a special meaning, with the \<^verbatim>\<open>.value\<close> of
  each member.
\<close>

datatype TagIndex = BIN | CONTROL_198 | CONTROL_888

fun TagIndex_value :: "TagIndex \<Rightarrow> int" where
  "TagIndex_value BIN = 0"
| "TagIndex_value CONTROL_198 = 198"
| "TagIndex_value CONTROL_888 = 888"

text \<open>
  Modelled from the spec: \<^verbatim>\<open>SeqSubset\<close> is declared in npg\_irods.metadata.common, which
  is not among the sources. The spec calls it an enumerated value from a closed set; the
  members \<^verbatim>\<open>HUMAN\<close>, \<^verbatim>\<open>XAHUMAN\<close>, \<^verbatim>\<open>YHUMAN\<close> and \<^verbatim>\<open>PHIX\<close> are the ones illumina.py names.
  It is taken to be an enumeration like \<^verbatim>\<open>TagIndex\<close>: a member is an object of its own,
  different from the string that is its \<^verbatim>\<open>.value\<close> (the source compares descriptor
  strings with \<^verbatim>\<open>SeqSubset.HUMAN.value\<close> and stores \<^verbatim>\<open>SeqSubset.HUMAN\<close>). The strings
  are the member names in lower case.
\<close>

datatype SeqSubset = HUMAN | XAHUMAN | YHUMAN | PHIX

fun SeqSubset_value :: "SeqSubset \<Rightarrow> string" where
  "SeqSubset_value HUMAN = ''human''"
| "SeqSubset_value XAHUMAN = ''xahuman''"
| "SeqSubset_value YHUMAN = ''yhuman''"
| "SeqSubset_value PHIX = ''phix''"

text \<open>
  Modelled from the spec: the attribute and key names \<^verbatim>\<open>SeqConcept.COMPONENT.value\<close>,
  \<^verbatim>\<open>Instrument.RUN.value\<close>, \<^verbatim>\<open>SeqConcept.POSITION.value\<close>, \<^verbatim>\<open>SeqConcept.TAG_INDEX.value\<close>
  and \<^verbatim>\<open>SeqConcept.SUBSET.value\<close> are declared in npg\_irods.metadata, which is not among
  the sources. The run key carries the name of the field it fills (\<^verbatim>\<open>id_run\<close>, the spec's
  run\_id); the others are the names the spec gives and mlwh\_locations/illumina.py
  writes as literals.
\<close>

definition COMPONENT_value :: string where "COMPONENT_value = ''component''"
definition RUN_value :: string where "RUN_value = ''id_run''"
definition POSITION_value :: string where "POSITION_value = ''position''"
definition TAG_INDEX_value :: string where "TAG_INDEX_value = ''tag_index''"
definition SUBSET_value :: string where "SUBSET_value = ''subset''"

subsection \<open>Values and errors\<close>

text \<open>
  What \<^verbatim>\<open>json.loads\<close> returns: \<^verbatim>\<open>None\<close>, a bool, an int, a str, a list or a dict with
  string keys. Numbers with a fraction or an exponent (Python floats) are not modelled.
\<close>

datatype json =
    JNull
  | JBool bool
  | JInt int
  | JStr string
  | JArr "json list"
  | JObj "(string \<times> json) list"

text \<open>
  An iRODS attribute/value pair (partisan's \<^verbatim>\<open>AVU\<close>); both parts are strings.
\<close>

record AVU =
  attribute :: string
  "value" :: string

text \<open>
  The exceptions of illumina.py as values. The constructor says which \<^verbatim>\<open>raise\<close> it is:
  an invalid subset (\<^verbatim>\<open>__init__\<close>); an invalid literal or an argument that is not a
  number, the \<^verbatim>\<open>ValueError\<close> and the \<^verbatim>\<open>TypeError\<close> of \<^verbatim>\<open>int(tag_index)\<close> (\<^verbatim>\<open>__init__\<close>); a
  component that could not be created (\<^verbatim>\<open>from_avu\<close>, which catches every exception of its
  body and raises a \<^verbatim>\<open>ValueError\<close> from it; the cause is kept); a request to exclude
  controls for a control tag index and an invalid tag index
  (\<^verbatim>\<open>find_flowcells_by_component\<close>); the \<^verbatim>\<open>TypeError\<close> of \<^verbatim>\<open>json.dumps\<close> for an object it
  cannot serialise (\<^verbatim>\<open>__repr__\<close>).
\<close>

datatype error =
    ValueError_invalid_subset json
  | ValueError_invalid_literal string
  | TypeError_int json
  | ValueError_failed_to_create cause
  | ValueError_exclude_controls int
  | ValueError_invalid_tag_index
  | TypeError_not_serializable SeqSubset
and cause =
    Invalid_attribute string
  | JSONDecodeError
  | AttributeError
  | KeyError string
  | Raised error

subsection \<open>Component\<close>

text \<open>
  The dataclass \<^verbatim>\<open>Component\<close>. The fields are declared \<^verbatim>\<open>int\<close>, \<^verbatim>\<open>int\<close>, \<^verbatim>\<open>Optional[int]\<close>
  and \<^verbatim>\<open>Optional[SeqSubset]\<close>; \<^verbatim>\<open>None\<close> can reach the first two as well (a JSON null, an
  SQL NULL), and \<^verbatim>\<open>find_flowcells_by_component\<close> tests the position for it, so they are
  options too. The record is an instance whose run and position are as declared; an
  instance that holds another value there is an \<open>Undeclared\<close> one, below.
\<close>

record Component =
  id_run :: "int option"
  position :: "int option"
  tag_index :: "int option"
  subset :: "SeqSubset option"

text \<open>
  \<^verbatim>\<open>Component.__init__\<close>. The run, position and tag index are given by their declared
  types (\<^verbatim>\<open>int(tag_index)\<close> is then the identity); the subset is whatever the descriptor
  holds, and the \<^verbatim>\<open>match\<close> compares it with the four values, then with \<^verbatim>\<open>None\<close>, in the
  order of the source.
\<close>

definition Component_init ::
  "int option \<Rightarrow> int option \<Rightarrow> int option \<Rightarrow> json \<Rightarrow> error + Component" where
  "Component_init r p t s =
     (let c = \<lparr>id_run = r, position = p, tag_index = t, subset = None\<rparr> in
      if s = JStr (SeqSubset_value HUMAN) then Inr (c\<lparr>subset := Some HUMAN\<rparr>)
      else if s = JStr (SeqSubset_value XAHUMAN) then Inr (c\<lparr>subset := Some XAHUMAN\<rparr>)
      else if s = JStr (SeqSubset_value YHUMAN) then Inr (c\<lparr>subset := Some YHUMAN\<rparr>)
      else if s = JStr (SeqSubset_value PHIX) then Inr (c\<lparr>subset := Some PHIX\<rparr>)
      else if s = JNull then Inr c
      else Inl (ValueError_invalid_subset s))"

text \<open>
  \<^verbatim>\<open>Component.contains_nonconsented_human\<close>.
\<close>

definition contains_nonconsented_human :: "Component \<Rightarrow> bool" where
  "contains_nonconsented_human c =
     (Component.subset c \<noteq> None \<and> the (Component.subset c) \<in> set [HUMAN, XAHUMAN])"

text \<open>
  An instance of the class as Python has it. The constructor stores the run and the
  position as they are given, whatever they are. \<open>Declared c\<close> is an instance whose run
  and position are ints or \<^verbatim>\<open>None\<close>, as the fields are declared: the record \<open>c\<close>.
  \<open>Undeclared r p t s\<close> is an instance whose run \<open>r\<close> or position \<open>p\<close> is another value
  (a str, a bool, a list, a dict), with its tag index and subset.
\<close>

datatype "instance" =
    Declared Component
  | Undeclared json json "int option" "SeqSubset option"

fun declared_int :: "json \<Rightarrow> int option option" where
  "declared_int (JInt i) = Some (Some i)"
| "declared_int JNull = Some None"
| "declared_int _ = None"

text \<open>
  \<^verbatim>\<open>int(s)\<close> for a string: white space around it is dropped, a sign may come first, and
  the rest is decimal digits, where single underscores may stand between digits; more
  than 4300 digits are refused (the default limit of the interpreter). A character is a
  code point below 256.
\<close>

definition py_isspace :: "char \<Rightarrow> bool" where
  "py_isspace c =
     (c \<in> set [CHR 0x09, CHR 0x0A, CHR 0x0B, CHR 0x0C, CHR 0x0D, CHR 0x1C, CHR 0x1D,
                CHR 0x1E, CHR 0x1F, CHR 0x20, CHR 0x85, CHR 0xA0])"

definition strip :: "string \<Rightarrow> string" where
  "strip s = rev (dropWhile py_isspace (rev (dropWhile py_isspace s)))"

definition is_digit :: "char \<Rightarrow> bool" where
  "is_digit c = (c \<in> set ''0123456789'')"

definition digit_of :: "char \<Rightarrow> int" where
  "digit_of c = int (length (takeWhile (\<lambda>d. d \<noteq> c) ''0123456789''))"

fun digits_value :: "string \<Rightarrow> int \<Rightarrow> int option" where
  "digits_value [] acc = Some acc"
| "digits_value (c # cs) acc =
     (if is_digit c then digits_value cs (10 * acc + digit_of c)
      else if c = CHR ''_'' then
        (case cs of
           [] \<Rightarrow> None
         | d # ds \<Rightarrow> if is_digit d then digits_value cs acc else None)
      else None)"

definition int_of_str :: "string \<Rightarrow> int option" where
  "int_of_str s =
     (let t = strip s;
          negative = (t \<noteq> [] \<and> hd t = CHR ''-'');
          body = (if t \<noteq> [] \<and> (hd t = CHR ''-'' \<or> hd t = CHR ''+'') then tl t else t)
      in
      if body = [] \<or> \<not> is_digit (hd body) \<or> length (filter is_digit body) > 4300 then None
      else map_option (\<lambda>n. if negative then - n else n) (digits_value body 0))"

text \<open>
  \<^verbatim>\<open>int(tag_index) if tag_index is not None else None\<close> for a value of a descriptor.
\<close>

fun tag_index_int :: "json \<Rightarrow> error + int option" where
  "tag_index_int JNull = Inr None"
| "tag_index_int (JInt i) = Inr (Some i)"
| "tag_index_int (JBool b) = Inr (Some (if b then 1 else 0))"
| "tag_index_int (JStr s) =
     (case int_of_str s of
        None \<Rightarrow> Inl (ValueError_invalid_literal s)
      | Some i \<Rightarrow> Inr (Some i))"
| "tag_index_int (JArr xs) = Inl (TypeError_int (JArr xs))"
| "tag_index_int (JObj kvs) = Inl (TypeError_int (JObj kvs))"

text \<open>
  \<^verbatim>\<open>Component.__init__\<close> for the values of a descriptor, whatever they are: the tag index
  is converted first, then the subset is matched (\<open>Component_init\<close>); the run and the
  position are stored unchecked.
\<close>

definition Component_new :: "json \<Rightarrow> json \<Rightarrow> json \<Rightarrow> json \<Rightarrow> error + instance" where
  "Component_new r p t s =
     (case tag_index_int t of
        Inl e \<Rightarrow> Inl e
      | Inr t' \<Rightarrow>
          (case (declared_int r, declared_int p) of
             (Some r', Some p') \<Rightarrow>
               (case Component_init r' p' t' s of
                  Inl e \<Rightarrow> Inl e
                | Inr c \<Rightarrow> Inr (Declared c))
           | _ \<Rightarrow>
               (case Component_init None None t' s of
                  Inl e \<Rightarrow> Inl e
                | Inr c \<Rightarrow> Inr (Undeclared r p t' (Component.subset c)))))"

text \<open>
  \<^verbatim>\<open>Component.from_avu\<close>. \<^verbatim>\<open>json.loads\<close> belongs to Python's standard library and is the
  parameter \<open>loads\<close>: \<open>None\<close> where it raises, the decoded value otherwise. A decoded
  object is a list of its members, read with \<open>map_of\<close>. Anything but an object has no
  \<^verbatim>\<open>get\<close> (an \<^verbatim>\<open>AttributeError\<close>), a missing run or position is a \<^verbatim>\<open>KeyError\<close>, a missing
  tag index or subset is \<^verbatim>\<open>None\<close>; every exception, those of the constructor too, is
  caught and raised again as a \<^verbatim>\<open>ValueError\<close>.
\<close>

definition dict_get :: "(string \<times> json) list \<Rightarrow> string \<Rightarrow> json" where
  "dict_get kv k = (case map_of kv k of None \<Rightarrow> JNull | Some v \<Rightarrow> v)"

definition from_avu :: "(string \<Rightarrow> json option) \<Rightarrow> AVU \<Rightarrow> error + instance" where
  "from_avu loads avu =
     (if attribute avu \<noteq> COMPONENT_value
      then Inl (ValueError_failed_to_create (Invalid_attribute (attribute avu)))
      else
        case loads (AVU.value avu) of
          None \<Rightarrow> Inl (ValueError_failed_to_create JSONDecodeError)
        | Some (JObj avu_value) \<Rightarrow>
            (let s = dict_get avu_value SUBSET_value in
             case map_of avu_value RUN_value of
               None \<Rightarrow> Inl (ValueError_failed_to_create (KeyError RUN_value))
             | Some r \<Rightarrow>
                 (case map_of avu_value POSITION_value of
                    None \<Rightarrow> Inl (ValueError_failed_to_create (KeyError POSITION_value))
                  | Some p \<Rightarrow>
                      (case Component_new r p (dict_get avu_value TAG_INDEX_value) s of
                         Inr c \<Rightarrow> Inr c
                       | Inl e \<Rightarrow> Inl (ValueError_failed_to_create (Raised e)))))
        | Some _ \<Rightarrow> Inl (ValueError_failed_to_create AttributeError))"

text \<open>
  The subset of an instance, and \<^verbatim>\<open>contains_nonconsented_human\<close> for an instance: the
  method reads the subset only.
\<close>

fun instance_subset :: "instance \<Rightarrow> SeqSubset option" where
  "instance_subset (Declared c) = Component.subset c"
| "instance_subset (Undeclared r p t s) = s"

fun instance_contains_nonconsented_human :: "instance \<Rightarrow> bool" where
  "instance_contains_nonconsented_human (Declared c) = contains_nonconsented_human c"
| "instance_contains_nonconsented_human (Undeclared r p t s) =
     contains_nonconsented_human
       \<lparr>Component.id_run = None, position = None, tag_index = t, subset = s\<rparr>"

text \<open>
  \<^verbatim>\<open>Component.__repr__\<close>, for an instance whose run and position are as declared. The
  values put into \<^verbatim>\<open>rep\<close> are the run and the position as they are, the tag index when
  it is not \<^verbatim>\<open>None\<close>, and the subset \<^emph>\<open>member\<close> (\<^verbatim>\<open>self.subset\<close>, not its \<^verbatim>\<open>.value\<close>) when it
  is not \<^verbatim>\<open>None\<close>.
\<close>

datatype pyval = PyNone | PyInt int | PyEnum SeqSubset

fun py_of_int_option :: "int option \<Rightarrow> pyval" where
  "py_of_int_option None = PyNone"
| "py_of_int_option (Some i) = PyInt i"

definition Component_rep :: "Component \<Rightarrow> (string \<times> pyval) list" where
  "Component_rep c =
     [(RUN_value, py_of_int_option (Component.id_run c)),
      (POSITION_value, py_of_int_option (Component.position c))]
     @ (case Component.tag_index c of None \<Rightarrow> [] | Some t \<Rightarrow> [(TAG_INDEX_value, PyInt t)])
     @ (case Component.subset c of None \<Rightarrow> [] | Some m \<Rightarrow> [(SUBSET_value, PyEnum m)])"

text \<open>
  \<^verbatim>\<open>json.dumps(rep, sort_keys=True, separators=(",", ":"))\<close> on such a dictionary: the
  items in the order of their keys, an int in decimal, \<^verbatim>\<open>None\<close> as \<^verbatim>\<open>null\<close>; an
  enumeration member is not one of the types the encoder knows, and the encoder raises
  \<^verbatim>\<open>TypeError\<close> when it reaches it. The keys are the four names above, which need no
  escaping.
\<close>

fun str_nat :: "nat \<Rightarrow> string" where
  "str_nat n =
     (if n < 10 then [''0123456789'' ! n]
      else str_nat (n div 10) @ [''0123456789'' ! (n mod 10)])"

declare str_nat.simps [simp del]

definition str_int :: "int \<Rightarrow> string" where
  "str_int i = (if i < 0 then CHR ''-'' # str_nat (nat (- i)) else str_nat (nat i))"

fun dumps_value :: "pyval \<Rightarrow> error + string" where
  "dumps_value PyNone = Inr ''null''"
| "dumps_value (PyInt i) = Inr (str_int i)"
| "dumps_value (PyEnum m) = Inl (TypeError_not_serializable m)"

fun dumps_items :: "(string \<times> pyval) list \<Rightarrow> error + string list" where
  "dumps_items [] = Inr []"
| "dumps_items ((k, v) # kvs) =
     (case dumps_value v of
        Inl e \<Rightarrow> Inl e
      | Inr s \<Rightarrow>
          (case dumps_items kvs of
             Inl e \<Rightarrow> Inl e
           | Inr ss \<Rightarrow> Inr (([CHR 0x22] @ k @ [CHR 0x22] @ '':'' @ s) # ss)))"

fun join :: "string \<Rightarrow> string list \<Rightarrow> string" where
  "join sep [] = []"
| "join sep [s] = s"
| "join sep (s # t # ss) = s @ sep @ join sep (t # ss)"

definition json_dumps :: "(string \<times> pyval) list \<Rightarrow> error + string" where
  "json_dumps rep =
     (case dumps_items (sort_key fst rep) of
        Inl e \<Rightarrow> Inl e
      | Inr ss \<Rightarrow> Inr (''{'' @ join '','' ss @ ''}''))"

definition Component_repr :: "Component \<Rightarrow> error + string" where
  "Component_repr c = json_dumps (Component_rep c)"

subsection \<open>The ML warehouse\<close>

text \<open>
  Modelled from the spec: the mapped classes \<^verbatim>\<open>Sample\<close>, \<^verbatim>\<open>Study\<close>, \<^verbatim>\<open>IseqFlowcell\<close> and
  \<^verbatim>\<open>IseqProductMetrics\<close> are declared in npg\_irods.db.mlwh, which is not among the
  sources. The model has the columns and relationships illumina.py names. The run,
  position and tag index columns are options, \<open>None\<close> being SQL's NULL; a time is a
  number of microseconds. A flowcell row associates a run, position and tag index with
  one sample and one study, as the spec says, and holds the rows its relationships lead
  to: its sample, its study and its product metrics rows. A session is the list of the
  flowcell rows.
\<close>

type_synonym datetime = int

record Sample =
  id_sample_tmp :: int
  recorded_at :: datetime

record Study =
  id_study_tmp :: int
  recorded_at :: datetime

record IseqProductMetrics =
  id_run :: "int option"
  position :: "int option"
  tag_index :: "int option"
  last_changed :: datetime

record IseqFlowcell =
  id_iseq_flowcell_tmp :: int
  position :: "int option"
  tag_index :: "int option"
  recorded_at :: datetime
  sample :: Sample
  study :: Study
  iseq_product_metrics :: "IseqProductMetrics list"

type_synonym Session = "IseqFlowcell list"

text \<open>
  \<^verbatim>\<open>sess.query(IseqFlowcell).distinct().join(IseqFlowcell.iseq_product_metrics)\<close>,
  filtered, then \<^verbatim>\<open>.order_by(asc(IseqFlowcell.id_iseq_flowcell_tmp)).all()\<close>: the pairs of
  a flowcell row and one of its product metrics rows, those the filter keeps, the
  flowcell rows of these without repetition, in ascending order of their key.
\<close>

definition flowcell_metrics :: "Session \<Rightarrow> (IseqFlowcell \<times> IseqProductMetrics) list" where
  "flowcell_metrics sess =
     concat (map (\<lambda>fc. map (Pair fc) (iseq_product_metrics fc)) sess)"

definition query_all :: "Session \<Rightarrow> (IseqProductMetrics \<Rightarrow> bool) \<Rightarrow> IseqFlowcell list" where
  "query_all sess keep =
     sort_key id_iseq_flowcell_tmp
       (remdups (map fst (filter (\<lambda>(fc, pm). keep pm) (flowcell_metrics sess))))"

text \<open>
  \<^verbatim>\<open>find_flowcells_by_component\<close>. SQLAlchemy's \<^verbatim>\<open>column == v\<close> is \<^verbatim>\<open>column = v\<close> for a
  value, which no NULL satisfies, and \<^verbatim>\<open>column IS NULL\<close> for \<^verbatim>\<open>None\<close>: equality of options.
  The cases of the \<^verbatim>\<open>match\<close> are tried in the order of the source; the last one,
  \<^verbatim>\<open>case _\<close>, is for a tag index that is neither an int nor \<^verbatim>\<open>None\<close>, which the field's
  type excludes.
\<close>

definition is_control :: "int \<Rightarrow> bool" where
  "is_control t = (t = TagIndex_value CONTROL_198 \<or> t = TagIndex_value CONTROL_888)"

definition find_flowcells_by_component ::
  "Session \<Rightarrow> Component \<Rightarrow> bool \<Rightarrow> error + IseqFlowcell list" where
  "find_flowcells_by_component sess component include_controls =
     (let run = (\<lambda>pm. IseqProductMetrics.id_run pm = Component.id_run component);
          pos = (\<lambda>pm. if Component.position component \<noteq> None
                       then IseqProductMetrics.position pm = Component.position component
                       else True)
      in
      case Component.tag_index component of
        Some t \<Rightarrow>
          if is_control t \<and> include_controls then
            Inr (query_all sess
                   (\<lambda>pm. run pm \<and> pos pm \<and> IseqProductMetrics.tag_index pm = Some t))
          else if is_control t then Inl (ValueError_exclude_controls t)
          else if t = TagIndex_value BIN then
            Inr (query_all sess
                   (\<lambda>pm. run pm \<and> pos pm \<and> IseqProductMetrics.tag_index pm \<noteq> None))
          else
            Inr (query_all sess
                   (\<lambda>pm. run pm \<and> pos pm \<and> IseqProductMetrics.tag_index pm = Some t))
      | None \<Rightarrow>
          Inr (query_all sess
                 (\<lambda>pm. run pm \<and> pos pm \<and> IseqProductMetrics.tag_index pm = None)))"

text \<open>
  \<^verbatim>\<open>find_flowcells_by_component\<close> for any instance. For an instance whose run or
  position is not as declared the function is the same, with that value bound in the
  comparison. What an integer column and a bound value that is neither an int nor
  \<^verbatim>\<open>None\<close> compare to is for the database to say: the parameter \<open>bound\<close>.
\<close>

definition column_equals ::
  "(int option \<Rightarrow> json \<Rightarrow> bool) \<Rightarrow> int option \<Rightarrow> json \<Rightarrow> bool" where
  "column_equals bound column v =
     (case declared_int v of Some v' \<Rightarrow> column = v' | None \<Rightarrow> bound column v)"

definition find_flowcells_by_instance ::
  "(int option \<Rightarrow> json \<Rightarrow> bool) \<Rightarrow> Session \<Rightarrow> instance \<Rightarrow> bool
     \<Rightarrow> error + IseqFlowcell list" where
  "find_flowcells_by_instance bound sess component include_controls =
     (case component of
        Declared c \<Rightarrow> find_flowcells_by_component sess c include_controls
      | Undeclared r p tag s \<Rightarrow>
          (let run = (\<lambda>pm. column_equals bound (IseqProductMetrics.id_run pm) r);
               pos = (\<lambda>pm. if p \<noteq> JNull
                            then column_equals bound (IseqProductMetrics.position pm) p
                            else True)
           in
           case tag of
             Some t \<Rightarrow>
               if is_control t \<and> include_controls then
                 Inr (query_all sess
                        (\<lambda>pm. run pm \<and> pos pm \<and> IseqProductMetrics.tag_index pm = Some t))
               else if is_control t then Inl (ValueError_exclude_controls t)
               else if t = TagIndex_value BIN then
                 Inr (query_all sess
                        (\<lambda>pm. run pm \<and> pos pm \<and> IseqProductMetrics.tag_index pm \<noteq> None))
               else
                 Inr (query_all sess
                        (\<lambda>pm. run pm \<and> pos pm \<and> IseqProductMetrics.tag_index pm = Some t))
           | None \<Rightarrow>
               Inr (query_all sess
                      (\<lambda>pm. run pm \<and> pos pm \<and> IseqProductMetrics.tag_index pm = None))))"

text \<open>
  \<^verbatim>\<open>find_components_changed\<close>. The joins give one row for each flowcell row and each of
  its product metrics rows, with the sample and the study of the flowcell row. The rows
  the filter keeps are taken in ascending order of the flowcell key and each gives the
  triple of the run of the product metrics row and the position and tag index of the
  flowcell row; a triple already produced is not produced again (\<^verbatim>\<open>distinct\<close>). Each
  triple becomes a \<^verbatim>\<open>Component\<close> without subset.
\<close>

definition changed_rows ::
  "Session \<Rightarrow> (IseqFlowcell \<times> Sample \<times> Study \<times> IseqProductMetrics) list" where
  "changed_rows sess =
     concat (map (\<lambda>fc. map (\<lambda>pm. (fc, sample fc, study fc, pm))
                           (iseq_product_metrics fc)) sess)"

definition changed_since ::
  "datetime \<Rightarrow> IseqFlowcell \<times> Sample \<times> Study \<times> IseqProductMetrics \<Rightarrow> bool" where
  "changed_since since row =
     (case row of (fc, sa, st, pm) \<Rightarrow>
        Sample.recorded_at sa \<ge> since
        \<or> Study.recorded_at st \<ge> since
        \<or> IseqFlowcell.recorded_at fc \<ge> since
        \<or> last_changed pm \<ge> since)"

definition rpt_of ::
  "IseqFlowcell \<times> Sample \<times> Study \<times> IseqProductMetrics
     \<Rightarrow> int option \<times> int option \<times> int option" where
  "rpt_of row =
     (case row of (fc, sa, st, pm) \<Rightarrow>
        (IseqProductMetrics.id_run pm, IseqFlowcell.position fc, IseqFlowcell.tag_index fc))"

fun distinct_first :: "'a list \<Rightarrow> 'a list" where
  "distinct_first [] = []"
| "distinct_first (x # xs) = x # distinct_first (filter (\<lambda>y. y \<noteq> x) xs)"

fun components_of ::
  "(int option \<times> int option \<times> int option) list \<Rightarrow> error + Component list" where
  "components_of [] = Inr []"
| "components_of ((r, p, t) # rpts) =
     (case Component_init r p t JNull of
        Inl e \<Rightarrow> Inl e
      | Inr c \<Rightarrow>
          (case components_of rpts of
             Inl e \<Rightarrow> Inl e
           | Inr cs \<Rightarrow> Inr (c # cs)))"

definition find_components_changed :: "Session \<Rightarrow> datetime \<Rightarrow> error + Component list" where
  "find_components_changed sess since =
     components_of
       (distinct_first
          (map rpt_of
             (sort_key (\<lambda>(fc, sa, st, pm). id_iseq_flowcell_tmp fc)
                (filter (changed_since since) (changed_rows sess)))))"

subsection \<open>Secondary metadata and permissions\<close>

text \<open>
  \<^verbatim>\<open>ensure_secondary_metadata_updated\<close> works through functions of npg\_irods.common and
  npg\_irods.metadata.lims and through partisan's item, none of them among the sources.
  They are parameters: each one that reads the item is a function of the item's state,
  each one that writes it returns whether it changed something and the new state. The
  model follows the calls in which none of them raises. \<open>json_loads\<close> is \<^verbatim>\<open>json.loads\<close>,
  \<open>bound_equals\<close> the comparison of the database for a bound value that is not an int.
\<close>

record ('item, 'ac) collaborators =
  infer_zone :: "'item \<Rightarrow> string"
  item_metadata :: "'item \<Rightarrow> string \<Rightarrow> AVU list"
  make_sample_metadata :: "Sample \<Rightarrow> AVU list"
  make_study_metadata :: "Study \<Rightarrow> AVU list"
  make_sample_acl :: "Sample \<Rightarrow> Study \<Rightarrow> string \<Rightarrow> 'ac list"
  update_metadata :: "'item \<Rightarrow> AVU list \<Rightarrow> bool \<times> 'item"
  has_consent_withdrawn_metadata :: "'item \<Rightarrow> bool"
  ensure_consent_withdrawn :: "'item \<Rightarrow> bool \<times> 'item"
  update_permissions :: "'item \<Rightarrow> 'ac list \<Rightarrow> bool \<times> 'item"
  json_loads :: "string \<Rightarrow> json option"
  bound_equals :: "int option \<Rightarrow> json \<Rightarrow> bool"

text \<open>
  What a call does to the item and to the log, in the order it does it.
\<close>

datatype 'ac effect =
    Update_metadata "AVU list"
  | Log_info string
  | Ensure_consent_withdrawn
  | Update_permissions "'ac list"

text \<open>
  A list comprehension or loop whose body may raise: the first exception ends it.
\<close>

fun map_raising :: "('a \<Rightarrow> error + 'b) \<Rightarrow> 'a list \<Rightarrow> error + 'b list" where
  "map_raising f [] = Inr []"
| "map_raising f (x # xs) =
     (case f x of
        Inl e \<Rightarrow> Inl e
      | Inr y \<Rightarrow>
          (case map_raising f xs of
             Inl e \<Rightarrow> Inl e
           | Inr ys \<Rightarrow> Inr (y # ys)))"

text \<open>
  The secondary metadata and the access control list accumulated over the flowcell rows
  found, in the order the loop extends them.
\<close>

definition accumulated_metadata :: "('item, 'ac) collaborators \<Rightarrow> IseqFlowcell list \<Rightarrow> AVU list" where
  "accumulated_metadata io fcs =
     concat (map (\<lambda>fc. make_sample_metadata io (sample fc) @ make_study_metadata io (study fc))
               fcs)"

definition accumulated_acl ::
  "('item, 'ac) collaborators \<Rightarrow> string \<Rightarrow> IseqFlowcell list \<Rightarrow> 'ac list" where
  "accumulated_acl io zone fcs =
     concat (map (\<lambda>fc. make_sample_acl io (sample fc) (study fc) zone) fcs)"

text \<open>
  \<^verbatim>\<open>ensure_secondary_metadata_updated\<close>. The components are parsed, then resolved one
  after the other; an exception of either step leaves the function before anything is
  written. Otherwise the metadata is updated and then, on the item as the update left
  it, one of the three branches is taken. The result is the returned flag, the item's
  new state and the effects, in order.
\<close>

definition ensure_secondary_metadata_updated ::
  "('item, 'ac) collaborators \<Rightarrow> 'item \<Rightarrow> Session \<Rightarrow> bool
     \<Rightarrow> error + (bool \<times> 'item \<times> 'ac effect list)" where
  "ensure_secondary_metadata_updated io item mlwh_session include_controls =
     (let zone = infer_zone io item in
      case map_raising (from_avu (json_loads io)) (item_metadata io item COMPONENT_value) of
        Inl e \<Rightarrow> Inl e
      | Inr components \<Rightarrow>
          (case map_raising
                  (\<lambda>c. find_flowcells_by_instance (bound_equals io) mlwh_session c
                         include_controls)
                  components of
             Inl e \<Rightarrow> Inl e
           | Inr found \<Rightarrow>
               (let secondary_metadata = accumulated_metadata io (concat found);
                    acl = accumulated_acl io zone (concat found);
                    (meta_update, item1) = update_metadata io item secondary_metadata
                in
                if has_consent_withdrawn_metadata io item1 then
                  (let (cons_update, item2) = ensure_consent_withdrawn io item1 in
                   Inr (meta_update \<or> cons_update, item2,
                        [Update_metadata secondary_metadata, Log_info ''Consent withdrawn'',
                         Ensure_consent_withdrawn]))
                else if list_ex instance_contains_nonconsented_human components then
                  (let (xahu_update, item2) = ensure_consent_withdrawn io item1 in
                   Inr (meta_update \<or> xahu_update, item2,
                        [Update_metadata secondary_metadata,
                         Log_info ''Non-consented human data'', Ensure_consent_withdrawn]))
                else
                  (let (perm_update, item2) = update_permissions io item1 acl in
                   Inr (meta_update \<or> perm_update, item2,
                        [Update_metadata secondary_metadata, Update_permissions acl])))))"

section \<open>Product locations (npg\_irods/mlwh\_locations/illumina.py)\<close>

text \<open>
  The two exception classes of the module; the message tells the two places that raise
  \<^verbatim>\<open>ExcludedObjectException\<close> apart. \<open>OtherException\<close> is an exception of any other class,
  with the name of the class.
\<close>

datatype excluded = Excluded_object_class | Excluded_class

datatype exc =
    MissingMetadataError
  | ExcludedObjectException excluded
  | OtherException string

text \<open>
  partisan's \<^verbatim>\<open>DataObject\<close>, as far as \<^verbatim>\<open>create_product_dict\<close> reads it: \<^verbatim>\<open>obj.path\<close> (the
  collection the object is in, which becomes the product's \<^verbatim>\<open>irods_root_collection\<close>),
  \<^verbatim>\<open>obj.name\<close> (which becomes its \<^verbatim>\<open>irods_data_relative_path\<close>) and \<^verbatim>\<open>obj.metadata()\<close>.
  The path of the data object itself is the collection, a slash and the name.
\<close>

record DataObject =
  path :: string
  name :: string
  metadata :: "AVU list"

type_synonym product = "string \<rightharpoonup> string"

definition ILLUMINA :: string where "ILLUMINA = ''illumina''"
definition NPG_PROD :: string where "NPG_PROD = ''npg-prod''"

text \<open>
  \<^verbatim>\<open>str.split(sep)\<close> for a separator of one character, and \<^verbatim>\<open>sub in s\<close> for strings.
\<close>

fun split :: "char \<Rightarrow> string \<Rightarrow> string list" where
  "split sep [] = [[]]"
| "split sep (c # cs) =
     (if c = sep then [] # split sep cs
      else (case split sep cs of
              [] \<Rightarrow> [[c]]
            | w # ws \<Rightarrow> (c # w) # ws))"

definition contains :: "string \<Rightarrow> string \<Rightarrow> bool" where
  "contains s sub = sublist sub s"

text \<open>
  The test at the head of the loop over the metadata of \<^verbatim>\<open>create_product_dict\<close>, and the
  loop itself, which raises at the first entry the test holds for and otherwise records
  \<^verbatim>\<open>id_product\<close> and \<^verbatim>\<open>alt_process\<close>.
\<close>

definition unwanted :: "AVU \<Rightarrow> bool" where
  "unwanted meta =
     ((attribute meta = ''tag_index'' \<and> AVU.value meta = ''0'')
      \<or> (attribute meta = ''reference'' \<and> contains (AVU.value meta) ''PhiX'')
      \<or> (attribute meta = ''component'' \<and> contains (AVU.value meta) ''subset''))"

fun read_metadata :: "AVU list \<Rightarrow> product \<Rightarrow> exc + product" where
  "read_metadata [] product = Inr product"
| "read_metadata (meta # metas) product =
     (if unwanted meta then Inl (ExcludedObjectException Excluded_object_class)
      else
        (let product1 = (if attribute meta = ''id_product''
                         then product(''id_product'' \<mapsto> AVU.value meta) else product);
             product2 = (if attribute meta = ''alt_process''
                         then product1(''pipeline_name'' \<mapsto> ''alt_'' @ AVU.value meta)
                         else product1)
         in read_metadata metas product2))"

text \<open>
  \<^verbatim>\<open>create_product_dict\<close>. \<^verbatim>\<open>DataObject(obj_path, baton_pool)\<close> is the parameter \<open>irods\<close>,
  which gives the object at a path.
\<close>

definition create_product_dict ::
  "(string \<Rightarrow> DataObject) \<Rightarrow> string \<Rightarrow> string \<Rightarrow> exc + product" where
  "create_product_dict irods obj_path ext =
     (let obj = irods obj_path in
      if last (split CHR ''.'' (name obj)) = ext \<and> \<not> contains (path obj) ''ranger'' then
        (let product =
               [''seq_platform_name'' \<mapsto> ILLUMINA,
                ''pipeline_name'' \<mapsto> NPG_PROD,
                ''irods_root_collection'' \<mapsto> path obj,
                ''irods_data_relative_path'' \<mapsto> name obj]
         in
         case read_metadata (metadata obj) product of
           Inl e \<Rightarrow> Inl e
         | Inr product' \<Rightarrow>
             if ''id_product'' \<in> dom product' then Inr product'
             else Inl MissingMetadataError)
      else Inl (ExcludedObjectException Excluded_class))"

text \<open>
  \<^verbatim>\<open>extract_products\<close>. A \<^verbatim>\<open>pool.ApplyResult\<close> is what its \<^verbatim>\<open>get\<close> does: it returns a value,
  which may be \<^verbatim>\<open>None\<close>, or raises the exception of the task. The two \<^verbatim>\<open>except\<close> clauses
  log the exception and go on with the next result; an exception of another class is not
  caught and leaves the function. The result is what the call returns or raises, and the
  log entries it has written.
\<close>

datatype 'p apply_result = Returns "'p option" | Raises exc

datatype level = Warn | Debug

fun extract_loop ::
  "'p apply_result list \<Rightarrow> 'p list \<Rightarrow> (level \<times> exc) list
     \<Rightarrow> (exc + 'p list) \<times> (level \<times> exc) list" where
  "extract_loop [] products log = (Inr products, log)"
| "extract_loop (Returns (Some product) # results) products log =
     extract_loop results (products @ [product]) log"
| "extract_loop (Returns None # results) products log =
     extract_loop results products log"
| "extract_loop (Raises MissingMetadataError # results) products log =
     extract_loop results products (log @ [(Warn, MissingMetadataError)])"
| "extract_loop (Raises (ExcludedObjectException m) # results) products log =
     extract_loop results products (log @ [(Debug, ExcludedObjectException m)])"
| "extract_loop (Raises (OtherException n) # results) products log =
     (Inl (OtherException n), log)"

definition extract_products ::
  "'p apply_result list \<Rightarrow> (exc + 'p list) \<times> (level \<times> exc) list" where
  "extract_products results = extract_loop results [] []"

section \<open>The specification's words\<close>

text \<open>
  The specification knows three subsets, human, x/y-chromosome-human and phix, where the
  source has four members: its x/y-chromosome-human stands for \<open>XAHUMAN\<close> and \<open>YHUMAN\<close>.
  In its words a component contains non-consented human data exactly when its subset is
  human or x/y-human.
\<close>

definition spec_contains_nonconsented_human :: "Component \<Rightarrow> bool" where
  "spec_contains_nonconsented_human c =
     (Component.subset c = Some HUMAN
      \<or> Component.subset c = Some XAHUMAN \<or> Component.subset c = Some YHUMAN)"


text \<open>
  What the specification expects of \<^verbatim>\<open>extract_products\<close> for one result: the product of
  a result that has one, the log entry of a result that failed with one of the two
  exceptions of the module. A result is \<open>uncaught\<close> when it failed with another
  exception.
\<close>

fun returned_product :: "'p apply_result \<Rightarrow> 'p list" where
  "returned_product (Returns (Some product)) = [product]"
| "returned_product _ = []"

fun logged :: "'p apply_result \<Rightarrow> (level \<times> exc) list" where
  "logged (Raises MissingMetadataError) = [(Warn, MissingMetadataError)]"
| "logged (Raises (ExcludedObjectException m)) = [(Debug, ExcludedObjectException m)]"
| "logged _ = []"

fun uncaught :: "'p apply_result \<Rightarrow> bool" where
  "uncaught (Raises (OtherException n)) = True"
| "uncaught _ = False"

text \<open>
  What \<^verbatim>\<open>json.loads\<close> reads back from the text \<^verbatim>\<open>json.dumps\<close> wrote for a value it can
  serialise (nothing is written for an enumeration member; its case is there to make
  the function total).
\<close>

fun decoded :: "pyval \<Rightarrow> json" where
  "decoded PyNone = JNull"
| "decoded (PyInt i) = JInt i"
| "decoded (PyEnum m) = JNull"

section \<open>Example data\<close>

text \<open>
  A warehouse with one run on position 1: three tagged samples (tag indexes 3, 1 and 2,
  in this order of insertion), a control with tag index 888 and the lane without tag
  index; and one row of another run.
\<close>

definition fc_example :: "int \<Rightarrow> int option \<Rightarrow> int option \<Rightarrow> IseqFlowcell" where
  "fc_example k run tag =
     \<lparr>id_iseq_flowcell_tmp = k, position = Some 1, tag_index = tag, recorded_at = 100,
      sample = \<lparr>id_sample_tmp = k, recorded_at = 100\<rparr>,
      study = \<lparr>id_study_tmp = 7, recorded_at = 100\<rparr>,
      iseq_product_metrics =
        [\<lparr>IseqProductMetrics.id_run = run, position = Some 1, tag_index = tag,
          last_changed = 100\<rparr>]\<rparr>"

definition pool_session :: Session where
  "pool_session =
     [fc_example 13 (Some 24338) (Some 3), fc_example 11 (Some 24338) (Some 1),
      fc_example 12 (Some 24338) (Some 2), fc_example 15 (Some 24338) None,
      fc_example 16 (Some 5) (Some 1)]"

definition example_session :: Session where
  "example_session = fc_example 14 (Some 24338) (Some 888) # pool_session"

definition example_component :: "int option \<Rightarrow> Component" where
  "example_component tag =
     \<lparr>Component.id_run = Some 24338, position = Some 1, tag_index = tag, subset = None\<rparr>"

text \<open>
  A warehouse of two rows: in the first only the product metrics row was changed, at
  time 100; in the second nothing was changed after time 99.
\<close>

definition changed_session :: Session where
  "changed_session =
     [\<lparr>id_iseq_flowcell_tmp = 2, position = Some 1, tag_index = Some 5, recorded_at = 50,
       sample = \<lparr>id_sample_tmp = 1, recorded_at = 50\<rparr>,
       study = \<lparr>id_study_tmp = 7, recorded_at = 50\<rparr>,
       iseq_product_metrics =
         [\<lparr>IseqProductMetrics.id_run = Some 10, position = Some 1, tag_index = Some 5,
           last_changed = 100\<rparr>]\<rparr>,
      \<lparr>id_iseq_flowcell_tmp = 1, position = Some 2, tag_index = None, recorded_at = 99,
       sample = \<lparr>id_sample_tmp = 2, recorded_at = 99\<rparr>,
       study = \<lparr>id_study_tmp = 7, recorded_at = 99\<rparr>,
       iseq_product_metrics =
         [\<lparr>IseqProductMetrics.id_run = Some 10, position = Some 2, tag_index = None,
           last_changed = 99\<rparr>]\<rparr>]"

text \<open>
  \<^verbatim>\<open>json.loads\<close> on the descriptors of the examples; in the last two the tag index and
  the run are strings.
\<close>

definition human_descriptor :: string where
  "human_descriptor = ''{\"id_run\":24338,\"position\":1,\"subset\":\"human\"}''"

definition control_descriptor :: string where
  "control_descriptor = ''{\"id_run\":24338,\"position\":1,\"tag_index\":888}''"

definition plex_descriptor :: string where
  "plex_descriptor = ''{\"id_run\":24338,\"position\":1,\"tag_index\":1}''"

definition string_tag_descriptor :: string where
  "string_tag_descriptor = ''{\"id_run\":24338,\"position\":1,\"tag_index\":\"1\"}''"

definition string_run_descriptor :: string where
  "string_run_descriptor = ''{\"id_run\":\"24338\",\"position\":1}''"

definition example_loads :: "string \<Rightarrow> json option" where
  "example_loads text =
     (if text = human_descriptor
      then Some (JObj [(''id_run'', JInt 24338), (''position'', JInt 1),
                       (''subset'', JStr ''human'')])
      else if text = control_descriptor
      then Some (JObj [(''id_run'', JInt 24338), (''position'', JInt 1),
                       (''tag_index'', JInt 888)])
      else if text = plex_descriptor
      then Some (JObj [(''id_run'', JInt 24338), (''position'', JInt 1),
                       (''tag_index'', JInt 1)])
      else if text = string_tag_descriptor
      then Some (JObj [(''id_run'', JInt 24338), (''position'', JInt 1),
                       (''tag_index'', JStr ''1'')])
      else if text = string_run_descriptor
      then Some (JObj [(''id_run'', JStr ''24338''), (''position'', JInt 1)])
      else None)"

definition component_avu :: "string \<Rightarrow> AVU" where
  "component_avu text = \<lparr>attribute = ''component'', value = text\<rparr>"

text \<open>
  An instance of the collaborators, for the examples only. An item is its metadata and
  the names that have access to it. The metadata update adds what is missing; the
  marker of withdrawn consent is the entry \<^verbatim>\<open>sample_consent_withdrawn = 1\<close>; enforcing it
  leaves access to the administrator only; updating the permissions gives access to the
  administrator and to the given names.
\<close>

record item_state =
  avus :: "AVU list"
  access :: "string list"

definition consent_withdrawn_avu :: AVU where
  "consent_withdrawn_avu = \<lparr>attribute = ''sample_consent_withdrawn'', value = ''1''\<rparr>"

definition example_io :: "(item_state, string) collaborators" where
  "example_io =
     \<lparr>infer_zone = (\<lambda>item. ''seq''),
      item_metadata = (\<lambda>item a. filter (\<lambda>avu. attribute avu = a) (avus item)),
      make_sample_metadata =
        (\<lambda>sa. [\<lparr>attribute = ''sample_id'', value = str_int (id_sample_tmp sa)\<rparr>]),
      make_study_metadata =
        (\<lambda>st. [\<lparr>attribute = ''study_id'', value = str_int (id_study_tmp st)\<rparr>]),
      make_sample_acl = (\<lambda>sa st zone. [''ss_'' @ str_int (id_study_tmp st) @ ''#'' @ zone]),
      update_metadata = (\<lambda>item target.
         let missing = filter (\<lambda>avu. avu \<notin> set (avus item)) (remdups target)
         in (missing \<noteq> [], item\<lparr>avus := avus item @ missing\<rparr>)),
      has_consent_withdrawn_metadata = (\<lambda>item. consent_withdrawn_avu \<in> set (avus item)),
      ensure_consent_withdrawn = (\<lambda>item.
         let kept = filter (\<lambda>u. u = ''irods'') (access item)
         in (kept \<noteq> access item, item\<lparr>access := kept\<rparr>)),
      update_permissions = (\<lambda>item acl.
         let target = ''irods'' # remdups acl
         in (target \<noteq> access item, item\<lparr>access := target\<rparr>)),
      json_loads = example_loads,
      bound_equals = (\<lambda>column v. False)\<rparr>"





text \<open>
  Four data objects: one in a collection of cellranger output, one with tag index 0 and
  no product id, one with a product id and an alternative process, and one named
  \<^verbatim>\<open>cellranger.cram\<close> in a collection whose path does not contain \<^verbatim>\<open>ranger\<close>.
\<close>

definition example_irods :: "string \<Rightarrow> DataObject" where
  "example_irods obj_path =
     (if obj_path = ''/seq/illumina/cellranger/24338/24338_1#1.cram'' then
        \<lparr>path = ''/seq/illumina/cellranger/24338'', name = ''24338_1#1.cram'',
         metadata = [\<lparr>attribute = ''id_product'', value = ''abc''\<rparr>]\<rparr>
      else if obj_path = ''/seq/24338/24338_1#0.cram'' then
        \<lparr>path = ''/seq/24338'', name = ''24338_1#0.cram'',
         metadata = [\<lparr>attribute = ''tag_index'', value = ''0''\<rparr>]\<rparr>
      else if obj_path = ''/seq/24338/24338_1#1.cram'' then
        \<lparr>path = ''/seq/24338'', name = ''24338_1#1.cram'',
         metadata = [\<lparr>attribute = ''id_product'', value = ''abc''\<rparr>,
                     \<lparr>attribute = ''alt_process'', value = ''x''\<rparr>]\<rparr>
      else if obj_path = ''/seq/24338/cellranger.cram'' then
        \<lparr>path = ''/seq/24338'', name = ''cellranger.cram'',
         metadata = [\<lparr>attribute = ''id_product'', value = ''abc''\<rparr>]\<rparr>
      else \<lparr>path = ''/'', name = obj_path, metadata = []\<rparr>)"

section \<open>Properties of the components\<close>

text \<open>
  The attribute and key names, to be unfolded together.
\<close>

lemmas names = COMPONENT_value_def RUN_value_def POSITION_value_def TAG_INDEX_value_def
  SUBSET_value_def

lemma Component_init_JNull:
  "Component_init r p t JNull
     = Inr \<lparr>Component.id_run = r, position = p, tag_index = t, subset = None\<rparr>"
  by (simp add: Component_init_def)

lemma Component_init_member:
  "Component_init r p t (JStr (SeqSubset_value m))
     = Inr \<lparr>Component.id_run = r, position = p, tag_index = t, subset = Some m\<rparr>"
  by (cases m) (simp_all add: Component_init_def)

lemma Component_init_other:
  assumes "s \<noteq> JNull" and "\<forall>m. s \<noteq> JStr (SeqSubset_value m)"
  shows "Component_init r p t s = Inl (ValueError_invalid_subset s)"
proof -
  from assms(2) have "s \<noteq> JStr (SeqSubset_value HUMAN)" "s \<noteq> JStr (SeqSubset_value XAHUMAN)"
    "s \<noteq> JStr (SeqSubset_value YHUMAN)" "s \<noteq> JStr (SeqSubset_value PHIX)"
    by blast+
  with assms(1) show ?thesis
    by (simp add: Component_init_def)
qed

text \<open>
  C3, as amended: \<^verbatim>\<open>contains_nonconsented_human\<close> is true exactly when the subset is
  \<open>HUMAN\<close> or \<open>XAHUMAN\<close>; it is false for \<open>YHUMAN\<close>, for \<open>PHIX\<close> and without subset.
\<close>

theorem contains_nonconsented_human_iff:
  "(contains_nonconsented_human c \<longleftrightarrow>
      Component.subset c = Some HUMAN \<or> Component.subset c = Some XAHUMAN)
   \<and> (Component.subset c \<in> {Some YHUMAN, Some PHIX, None}
        \<longrightarrow> \<not> contains_nonconsented_human c)"
  by (cases "Component.subset c") (auto simp: contains_nonconsented_human_def)

theorem contains_nonconsented_human_iff_witness:
  "contains_nonconsented_human
     \<lparr>Component.id_run = Some 1, position = Some 1, tag_index = None, subset = Some XAHUMAN\<rparr>
   \<and> \<not> contains_nonconsented_human
     \<lparr>Component.id_run = Some 1, position = Some 1, tag_index = None, subset = Some PHIX\<rparr>"
  using contains_nonconsented_human_iff
          [of "\<lparr>Component.id_run = Some 1, position = Some 1, tag_index = None,
                subset = Some XAHUMAN\<rparr>"]
        contains_nonconsented_human_iff
          [of "\<lparr>Component.id_run = Some 1, position = Some 1, tag_index = None,
                subset = Some PHIX\<rparr>"]
  by simp

text \<open>
  C3, as stated, fails for the second x/y-chromosome subset: a component with subset
  \<open>YHUMAN\<close> is x/y-human in the specification's words, and the source answers false.
\<close>

theorem yhuman_not_nonconsented:
  "spec_contains_nonconsented_human
     \<lparr>Component.id_run = Some 1, position = Some 1, tag_index = None, subset = Some YHUMAN\<rparr>
   \<and> \<not> contains_nonconsented_human
     \<lparr>Component.id_run = Some 1, position = Some 1, tag_index = None, subset = Some YHUMAN\<rparr>"
  by (simp add: contains_nonconsented_human_def spec_contains_nonconsented_human_def)

text \<open>
  C7: for every subset value present in a descriptor, \<^verbatim>\<open>Component.__init__\<close> succeeds
  exactly when the value is the string of one of the members of the closed set (human,
  the two x/y-chromosome subsets xahuman and yhuman, phix), and the component then has
  that member as its subset; any other value raises the \<^verbatim>\<open>ValueError\<close> for an invalid
  subset. (A JSON null is no value: Python's \<^verbatim>\<open>None\<close>.)
\<close>

theorem Component_init_subset:
  assumes "s \<noteq> JNull"
  shows "((\<exists>c. Component_init r p t s = Inr c) \<longleftrightarrow> (\<exists>m. s = JStr (SeqSubset_value m)))
     \<and> ((\<forall>m. s \<noteq> JStr (SeqSubset_value m))
          \<longrightarrow> Component_init r p t s = Inl (ValueError_invalid_subset s))
     \<and> (\<forall>m. s = JStr (SeqSubset_value m)
          \<longrightarrow> Component_init r p t s
              = Inr \<lparr>Component.id_run = r, position = p, tag_index = t, subset = Some m\<rparr>)"
  using Component_init_member [of r p t] Component_init_other [OF assms, of r p t]
  by (metis sum.distinct(1))

theorem Component_init_subset_witness:
  "JStr ''yhuman'' \<noteq> JNull
   \<and> Component_init (Some 24338) (Some 1) None (JStr ''yhuman'')
       = Inr \<lparr>Component.id_run = Some 24338, position = Some 1, tag_index = None,
              subset = Some YHUMAN\<rparr>
   \<and> JStr ''mouse'' \<noteq> JNull
   \<and> Component_init (Some 24338) (Some 1) None (JStr ''mouse'')
       = Inl (ValueError_invalid_subset (JStr ''mouse''))"
proof -
  have a: "JStr ''yhuman'' \<noteq> JNull" and b: "JStr ''mouse'' \<noteq> JNull"
    by simp_all
  have y: "JStr ''yhuman'' = JStr (SeqSubset_value YHUMAN)"
    by simp
  have m: "\<forall>m. JStr ''mouse'' \<noteq> JStr (SeqSubset_value m)"
  proof
    fix m show "JStr ''mouse'' \<noteq> JStr (SeqSubset_value m)"
      by (cases m) simp_all
  qed
  from Component_init_subset [OF a, of "Some 24338" "Some 1" None] y
  have "Component_init (Some 24338) (Some 1) None (JStr ''yhuman'')
       = Inr \<lparr>Component.id_run = Some 24338, position = Some 1, tag_index = None,
              subset = Some YHUMAN\<rparr>"
    by blast
  moreover from Component_init_subset [OF b, of "Some 24338" "Some 1" None] m
  have "Component_init (Some 24338) (Some 1) None (JStr ''mouse'')
       = Inl (ValueError_invalid_subset (JStr ''mouse''))"
    by blast
  ultimately show ?thesis using a b by blast
qed

text \<open>
  \<^verbatim>\<open>int\<close> on strings, as the interpreter answers.
\<close>

lemma int_of_str_examples:
  "int_of_str ''1'' = Some 1"
  "int_of_str '' +1_0 '' = Some 10"
  "int_of_str ''-007'' = Some (- 7)"
  "int_of_str ''1_'' = None"
  "int_of_str ''1__0'' = None"
  "int_of_str ''- 5'' = None"
  "int_of_str [] = None"
  "int_of_str ''1.0'' = None"
  by (simp_all add: int_of_str_def strip_def py_isspace_def is_digit_def digit_of_def)

text \<open>
  The constructor on the values of a descriptor: with a run and a position as declared
  and a tag index that is an int or absent it is \<open>Component_init\<close>.
\<close>

lemma Component_new_declared:
  "Component_new (JInt r) (JInt p) JNull s
     = (case Component_init (Some r) (Some p) None s of Inl e \<Rightarrow> Inl e
        | Inr c \<Rightarrow> Inr (Declared c))"
  "Component_new (JInt r) (JInt p) (JInt t) s
     = (case Component_init (Some r) (Some p) (Some t) s of Inl e \<Rightarrow> Inl e
        | Inr c \<Rightarrow> Inr (Declared c))"
  by (simp_all add: Component_new_def)

text \<open>
  What \<^verbatim>\<open>from_avu\<close> makes of the exception of \<^verbatim>\<open>__init__\<close>: the \<^verbatim>\<open>ValueError\<close> of a
  descriptor that cannot be parsed.
\<close>

lemma from_avu_invalid_subset:
  assumes "attribute avu = COMPONENT_value"
    and "loads (AVU.value avu) = Some (JObj kv)"
    and "map_of kv RUN_value = Some (JInt r)" and "map_of kv POSITION_value = Some (JInt p)"
    and "map_of kv TAG_INDEX_value = None"
    and "map_of kv SUBSET_value = Some s"
    and "s \<noteq> JNull" and "\<forall>m. s \<noteq> JStr (SeqSubset_value m)"
  shows "from_avu loads avu
           = Inl (ValueError_failed_to_create (Raised (ValueError_invalid_subset s)))"
  using assms Component_init_other [OF assms(7,8)]
  by (simp add: from_avu_def dict_get_def Component_new_def)

text \<open>
  A tag index that is the string \<^verbatim>\<open>1\<close> is converted; a run that is a string is stored as
  it is.
\<close>

lemmas descriptors = human_descriptor_def control_descriptor_def plex_descriptor_def
  string_tag_descriptor_def string_run_descriptor_def

lemma from_avu_string_tag:
  "from_avu example_loads (component_avu string_tag_descriptor)
     = Inr (Declared \<lparr>Component.id_run = Some 24338, position = Some 1, tag_index = Some 1,
                      subset = None\<rparr>)"
  by (simp add: from_avu_def example_loads_def component_avu_def names dict_get_def
        Component_new_def Component_init_def descriptors
        int_of_str_def strip_def py_isspace_def is_digit_def digit_of_def)

lemma from_avu_string_run:
  "from_avu example_loads (component_avu string_run_descriptor)
     = Inr (Undeclared (JStr ''24338'') (JInt 1) None None)"
  by (simp add: from_avu_def example_loads_def component_avu_def names dict_get_def
        Component_new_def Component_init_def descriptors)

lemma dumps_items_enum:
  "(k, PyEnum m) \<in> set kvs \<Longrightarrow> \<exists>m'. dumps_items kvs = Inl (TypeError_not_serializable m')"
proof (induction kvs)
  case Nil
  then show ?case by simp
next
  case (Cons kv kvs)
  obtain k' v' where kv: "kv = (k', v')" by (cases kv) auto
  show ?case
  proof (cases v')
    case (PyEnum m')
    with kv show ?thesis by simp
  next
    case PyNone
    with Cons kv show ?thesis by (auto split: sum.splits)
  next
    case (PyInt i)
    with Cons kv show ?thesis by (auto split: sum.splits)
  qed
qed

lemma Component_repr_subset:
  assumes "Component.subset c = Some m"
  shows "\<exists>m'. Component_repr c = Inl (TypeError_not_serializable m')"
proof -
  have "set (sort_key fst (Component_rep c)) = set (Component_rep c)"
    by (rule set_sort)
  with assms have "(SUBSET_value, PyEnum m) \<in> set (sort_key fst (Component_rep c))"
    by (simp add: Component_rep_def)
  from dumps_items_enum [OF this] show ?thesis
    by (auto simp: Component_repr_def json_dumps_def)
qed

text \<open>
  C6: the round trip parses a descriptor, serialises the component and parses the text.
  For every descriptor that parses to a component with a subset (and a run and a
  position as declared) the second step fails:
  \<^verbatim>\<open>__repr__\<close> hands the member \<^verbatim>\<open>self.subset\<close>, not its \<^verbatim>\<open>.value\<close>, to \<^verbatim>\<open>json.dumps\<close>, which
  raises \<^verbatim>\<open>TypeError\<close>. There is no text to parse again.
\<close>

theorem repr_of_parsed_subset_raises:
  assumes "from_avu loads avu = Inr (Declared c)" and "Component.subset c \<noteq> None"
  shows "\<exists>m. Component_repr c = Inl (TypeError_not_serializable m)"
  using assms Component_repr_subset by (cases "Component.subset c") auto

theorem repr_of_parsed_subset_raises_witness:
  "from_avu example_loads (component_avu human_descriptor)
     = Inr (Declared \<lparr>Component.id_run = Some 24338, position = Some 1, tag_index = None,
                      subset = Some HUMAN\<rparr>)
   \<and> Component_repr \<lparr>Component.id_run = Some 24338, position = Some 1, tag_index = None,
                      subset = Some HUMAN\<rparr>
       = Inl (TypeError_not_serializable HUMAN)"
proof -
  let ?c = "\<lparr>Component.id_run = Some 24338, position = Some 1, tag_index = None,
             subset = Some HUMAN\<rparr>"
  have parsed: "from_avu example_loads (component_avu human_descriptor) = Inr (Declared ?c)"
    by (simp add: from_avu_def example_loads_def component_avu_def names dict_get_def
          Component_new_def Component_init_def)
  have "Component.subset ?c \<noteq> None"
    by simp
  from repr_of_parsed_subset_raises [OF parsed this]
  obtain m where m: "Component_repr ?c = Inl (TypeError_not_serializable m)" ..
  moreover have "m = HUMAN"
    using m by (simp add: Component_repr_def Component_rep_def json_dumps_def names)
  ultimately show ?thesis using parsed by simp
qed

text \<open>
  Without subset the serialisation succeeds and the round trip holds, for every
  \<open>loads\<close> that reads the text back: the canonical text of the bin component of run
  24338, and the general statement.
\<close>

lemma str_nat_digit: "n < 10 \<Longrightarrow> str_nat n = [''0123456789'' ! n]"
  by (simp add: str_nat.simps)

lemma str_nat_digits:
  "10 \<le> n \<Longrightarrow> str_nat n = str_nat (n div 10) @ [''0123456789'' ! (n mod 10)]"
  by (subst str_nat.simps) simp

lemmas str_int_eval = str_int_def str_nat_digit str_nat_digits

lemma Component_repr_example:
  "Component_repr (example_component (Some 0))
     = Inr ''{\"id_run\":24338,\"position\":1,\"tag_index\":0}''"
  by (simp add: Component_repr_def Component_rep_def json_dumps_def names
        example_component_def str_int_eval)

lemma round_trip_without_subset:
  assumes "Component.subset c = None"
    and "loads text = Some (JObj (map (\<lambda>(k, v). (k, decoded v)) (sort_key fst (Component_rep c))))"
  shows "(\<exists>text'. Component_repr c = Inr text')
    \<and> from_avu loads (component_avu text) = Inr (Declared c)"
proof -
  obtain r p t where c: "c = \<lparr>Component.id_run = r, position = p, tag_index = t, subset = None\<rparr>"
    using assms(1) by (cases c) auto
  have le: "RUN_value \<le> POSITION_value" "POSITION_value \<le> TAG_INDEX_value"
    "RUN_value \<le> TAG_INDEX_value"
    by (simp_all add: names)
  have sorted: "sort_key fst (Component_rep c) = Component_rep c"
    using le by (cases t) (simp_all add: c Component_rep_def)
  have "\<exists>text'. Component_repr c = Inr text'"
    by (cases t; cases r; cases p)
       (simp_all add: Component_repr_def json_dumps_def sorted, simp_all add: c Component_rep_def)
  moreover have "from_avu loads (component_avu text) = Inr (Declared c)"
    using assms(2) unfolding sorted
    by (cases t; cases r; cases p)
       (simp_all add: c Component_rep_def from_avu_def component_avu_def dict_get_def
          Component_new_def Component_init_JNull, simp_all add: names)
  ultimately show ?thesis by blast
qed

section \<open>Properties of the warehouse queries\<close>

lemma set_query_all:
  "set (query_all sess keep) =
     {fc \<in> set sess. \<exists>pm \<in> set (iseq_product_metrics fc). keep pm}"
proof -
  have "set (map fst (filter (\<lambda>(fc, pm). keep pm) (flowcell_metrics sess)))
        = {fc \<in> set sess. \<exists>pm \<in> set (iseq_product_metrics fc). keep pm}"
    by (force simp: flowcell_metrics_def)
  then show ?thesis by (simp add: query_all_def)
qed

lemma distinct_query_all: "distinct (query_all sess keep)"
  by (simp add: query_all_def)

lemma sorted_query_all: "sorted (map id_iseq_flowcell_tmp (query_all sess keep))"
  by (simp add: query_all_def)

lemmas query_eval = find_flowcells_by_component_def is_control_def query_all_def
  flowcell_metrics_def example_session_def pool_session_def example_component_def
  fc_example_def

text \<open>
  C1: for every component whose tag index is a control value (198 or 888),
  \<^verbatim>\<open>find_flowcells_by_component\<close> with \<^verbatim>\<open>include_controls=False\<close> raises the \<^verbatim>\<open>ValueError\<close>
  of a request to exclude controls (the specification's InvalidQueryError) whatever the
  warehouse holds, and so returns no list; with \<^verbatim>\<open>include_controls=True\<close> it returns the
  flowcell rows with a product metrics row of the component's run and position whose
  tag index is exactly that value.
\<close>

theorem find_flowcells_control:
  assumes "Component.tag_index c = Some t" and "t = 198 \<or> t = 888"
  shows "find_flowcells_by_component sess c False = Inl (ValueError_exclude_controls t)
    \<and> (\<exists>fcs. find_flowcells_by_component sess c True = Inr fcs
          \<and> set fcs = {fc \<in> set sess. \<exists>pm \<in> set (iseq_product_metrics fc).
                IseqProductMetrics.id_run pm = Component.id_run c
                \<and> (Component.position c = None
                     \<or> IseqProductMetrics.position pm = Component.position c)
                \<and> IseqProductMetrics.tag_index pm = Some t}
          \<and> distinct fcs \<and> sorted (map id_iseq_flowcell_tmp fcs))"
  using assms
  by (auto simp: find_flowcells_by_component_def is_control_def set_query_all Let_def
        distinct_query_all sorted_query_all)

theorem find_flowcells_control_witness:
  "Component.tag_index (example_component (Some 888)) = Some 888
   \<and> find_flowcells_by_component example_session (example_component (Some 888)) False
       = Inl (ValueError_exclude_controls 888)
   \<and> find_flowcells_by_component example_session (example_component (Some 888)) True
       = Inr [fc_example 14 (Some 24338) (Some 888)]"
proof -
  have t: "Component.tag_index (example_component (Some 888)) = Some 888"
    by (simp add: example_component_def)
  have v: "(888 :: int) = 198 \<or> (888 :: int) = 888"
    by simp
  have "find_flowcells_by_component example_session (example_component (Some 888)) True
       = Inr [fc_example 14 (Some 24338) (Some 888)]"
    by (simp add: query_eval)
  with find_flowcells_control [OF t v, of example_session] t show ?thesis
    by blast
qed

text \<open>
  C2: for every component with tag index 0 (the bin), whatever \<^verbatim>\<open>include_controls\<close> is,
  \<^verbatim>\<open>find_flowcells_by_component\<close> returns the flowcell rows with a product metrics row of
  the component's run and position whose tag index is not null, each row once, in
  ascending order of the key; it does not look for the tag index 0.
\<close>

theorem find_flowcells_bin:
  assumes "Component.tag_index c = Some 0"
  shows "\<exists>fcs. find_flowcells_by_component sess c include_controls = Inr fcs
    \<and> set fcs = {fc \<in> set sess. \<exists>pm \<in> set (iseq_product_metrics fc).
          IseqProductMetrics.id_run pm = Component.id_run c
          \<and> (Component.position c = None
               \<or> IseqProductMetrics.position pm = Component.position c)
          \<and> IseqProductMetrics.tag_index pm \<noteq> None}
    \<and> distinct fcs \<and> sorted (map id_iseq_flowcell_tmp fcs)"
  using assms
  by (auto simp: find_flowcells_by_component_def is_control_def set_query_all Let_def
        distinct_query_all sorted_query_all)

text \<open>
  The example of the specification: the bin component of run 24338, position 1, against
  rows with tag indexes 1, 2 and 3 gives the three rows (and neither the row of the lane
  nor the row of the other run).
\<close>

theorem find_flowcells_bin_witness:
  "Component.tag_index (example_component (Some 0)) = Some 0
   \<and> find_flowcells_by_component pool_session (example_component (Some 0)) False
       = Inr [fc_example 11 (Some 24338) (Some 1), fc_example 12 (Some 24338) (Some 2),
              fc_example 13 (Some 24338) (Some 3)]"
proof -
  have t: "Component.tag_index (example_component (Some 0)) = Some 0"
    by (simp add: example_component_def)
  from find_flowcells_bin [OF t, of pool_session False]
  obtain fcs where
    fcs: "find_flowcells_by_component pool_session (example_component (Some 0)) False = Inr fcs"
    by blast
  moreover have
    "find_flowcells_by_component pool_session (example_component (Some 0)) False
       = Inr [fc_example 11 (Some 24338) (Some 1), fc_example 12 (Some 24338) (Some 2),
              fc_example 13 (Some 24338) (Some 3)]"
    by (simp add: query_eval)
  ultimately show ?thesis using t by simp
qed

lemma components_of_eq:
  "components_of rpts =
     Inr (map (\<lambda>(r, p, t). \<lparr>Component.id_run = r, position = p, tag_index = t,
                              subset = None\<rparr>) rpts)"
  by (induction rpts) (auto simp: Component_init_JNull)

lemma set_distinct_first: "set (distinct_first xs) = set xs"
  by (induction xs rule: distinct_first.induct) auto

lemma distinct_distinct_first: "distinct (distinct_first xs)"
  by (induction xs rule: distinct_first.induct) (auto simp: set_distinct_first)

lemma set_changed_rows:
  "set (changed_rows sess) =
     {(fc, sa, st, pm). fc \<in> set sess \<and> sa = sample fc \<and> st = study fc
        \<and> pm \<in> set (iseq_product_metrics fc)}"
  by (auto simp: changed_rows_def)

text \<open>
  C5: for every checkpoint, \<^verbatim>\<open>find_components_changed\<close> returns normally, and a component
  is among those it yields if and only if it has no subset and its run, position and tag
  index are those of a flowcell row and one of its product metrics rows of which at least
  one of the four times (\<^verbatim>\<open>recorded_at\<close> of the sample, of the study and of the flowcell
  row, \<^verbatim>\<open>last_changed\<close> of the product metrics row) is at or after the checkpoint. A row
  whose four times are all before the checkpoint contributes nothing.
\<close>

theorem find_components_changed_iff:
  "\<exists>cs. find_components_changed sess since = Inr cs
     \<and> (\<forall>c. c \<in> set cs \<longleftrightarrow>
          Component.subset c = None
          \<and> (\<exists>fc pm.
                fc \<in> set sess \<and> pm \<in> set (iseq_product_metrics fc)
                \<and> Component.id_run c = IseqProductMetrics.id_run pm
                \<and> Component.position c = IseqFlowcell.position fc
                \<and> Component.tag_index c = IseqFlowcell.tag_index fc
                \<and> (Sample.recorded_at (sample fc) \<ge> since
                     \<or> Study.recorded_at (study fc) \<ge> since
                     \<or> IseqFlowcell.recorded_at fc \<ge> since
                     \<or> last_changed pm \<ge> since)))"
proof -
  let ?rows = "filter (changed_since since) (changed_rows sess)"
  let ?rpts = "distinct_first (map rpt_of
                 (sort_key (\<lambda>(fc, sa, st, pm). id_iseq_flowcell_tmp fc) ?rows))"
  let ?mk = "\<lambda>(r, p, t). \<lparr>Component.id_run = r, position = p, tag_index = t,
                            subset = None\<rparr>"
  have res: "find_components_changed sess since = Inr (map ?mk ?rpts)"
    by (simp add: find_components_changed_def components_of_eq)
  have rpts: "set ?rpts = rpt_of ` {row \<in> set (changed_rows sess). changed_since since row}"
    by (simp add: set_distinct_first)
  have "c \<in> set (map ?mk ?rpts) \<longleftrightarrow>
          Component.subset c = None
          \<and> (\<exists>fc pm.
                fc \<in> set sess \<and> pm \<in> set (iseq_product_metrics fc)
                \<and> Component.id_run c = IseqProductMetrics.id_run pm
                \<and> Component.position c = IseqFlowcell.position fc
                \<and> Component.tag_index c = IseqFlowcell.tag_index fc
                \<and> (Sample.recorded_at (sample fc) \<ge> since
                     \<or> Study.recorded_at (study fc) \<ge> since
                     \<or> IseqFlowcell.recorded_at fc \<ge> since
                     \<or> last_changed pm \<ge> since))" (is "?L \<longleftrightarrow> ?R") for c
  proof
    assume ?L
    then obtain row where row: "row \<in> set (changed_rows sess)" "changed_since since row"
      and c: "c = ?mk (rpt_of row)"
      unfolding set_map rpts by blast
    obtain fc sa st pm where r: "row = (fc, sa, st, pm)" by (cases row) auto
    from row r have "fc \<in> set sess \<and> sa = sample fc \<and> st = study fc
        \<and> pm \<in> set (iseq_product_metrics fc)"
      by (simp add: set_changed_rows)
    with row c r show ?R
      by (auto simp: rpt_of_def changed_since_def)
  next
    assume R: ?R
    then obtain fc pm where h:
      "fc \<in> set sess" "pm \<in> set (iseq_product_metrics fc)"
      "Component.id_run c = IseqProductMetrics.id_run pm"
      "Component.position c = IseqFlowcell.position fc"
      "Component.tag_index c = IseqFlowcell.tag_index fc"
      "Sample.recorded_at (sample fc) \<ge> since
         \<or> Study.recorded_at (study fc) \<ge> since
         \<or> IseqFlowcell.recorded_at fc \<ge> since
         \<or> last_changed pm \<ge> since"
      by blast
    let ?row = "(fc, sample fc, study fc, pm)"
    from h have "?row \<in> set (changed_rows sess)" "changed_since since ?row"
      by (auto simp: set_changed_rows changed_since_def)
    then have "rpt_of ?row \<in> set ?rpts"
      unfolding rpts by blast
    moreover from h R have "c = ?mk (rpt_of ?row)"
      by (simp add: rpt_of_def)
    ultimately show ?L
      unfolding set_map by blast
  qed
  with res show ?thesis by blast
qed

text \<open>
  At the checkpoint 100 the first row of the example, whose product metrics row was
  changed at 100, is yielded (the boundary is inclusive), and the second row, last
  changed at 99, is not.
\<close>

theorem find_components_changed_iff_witness:
  "find_components_changed changed_session 100
     = Inr [\<lparr>Component.id_run = Some 10, position = Some 1, tag_index = Some 5,
             subset = None\<rparr>]
   \<and> find_components_changed changed_session 101 = Inr []"
proof -
  from find_components_changed_iff [of changed_session 100]
  obtain cs where "find_components_changed changed_session 100 = Inr cs"
    by blast
  moreover have "find_components_changed changed_session 100
     = Inr [\<lparr>Component.id_run = Some 10, position = Some 1, tag_index = Some 5,
             subset = None\<rparr>]"
    by (simp add: find_components_changed_def changed_session_def changed_rows_def
          changed_since_def rpt_of_def Component_init_def)
  moreover have "find_components_changed changed_session 101 = Inr []"
    by (simp add: find_components_changed_def changed_session_def changed_rows_def
          changed_since_def rpt_of_def Component_init_def)
  ultimately show ?thesis by simp
qed

section \<open>Properties of the update of secondary metadata\<close>

lemmas update_eval = ensure_secondary_metadata_updated_def example_io_def
  component_avu_def consent_withdrawn_avu_def from_avu_def example_loads_def
  descriptors names dict_get_def Component_new_def Component_init_def
  contains_nonconsented_human_def find_flowcells_by_instance_def
  accumulated_metadata_def accumulated_acl_def

text \<open>
  For an instance whose run and position are as declared, the two ways of writing it
  resolve alike.
\<close>

lemma find_flowcells_by_instance_declared:
  assumes "declared_int r = Some r'" and "declared_int p = Some p'"
  shows "find_flowcells_by_instance bound sess (Undeclared r p t s) include_controls
    = find_flowcells_by_instance bound sess
        (Declared \<lparr>Component.id_run = r', position = p', tag_index = t, subset = s\<rparr>)
        include_controls"
  using assms
  by (cases r; cases p; cases t)
     (auto simp: find_flowcells_by_instance_def find_flowcells_by_component_def
        column_equals_def)




text \<open>
  A component whose run is a string is resolved with the comparison of the database,
  which in the example matches no row: the call returns and takes the third branch.
\<close>

lemma string_run_item_returns:
  "ensure_secondary_metadata_updated example_io
     \<lparr>avus = [component_avu string_run_descriptor], access = [''irods'']\<rparr>
     example_session False
   = Inr (False, \<lparr>avus = [component_avu string_run_descriptor], access = [''irods'']\<rparr>,
          [Update_metadata [], Update_permissions []])"
  by (simp add: update_eval query_all_def flowcell_metrics_def example_session_def
        pool_session_def fc_example_def column_equals_def Let_def)

section \<open>Properties of the product locations\<close>

lemma extract_loop_caught:
  "list_all (\<lambda>r. \<not> uncaught r) results \<Longrightarrow>
   extract_loop results products log
     = (Inr (products @ concat (map returned_product results)),
        log @ concat (map logged results))"
  by (induction results products log rule: extract_loop.induct) auto

lemma extract_loop_uncaught:
  "list_all (\<lambda>r. \<not> uncaught r) pre \<Longrightarrow>
   extract_loop (pre @ Raises (OtherException n) # post) products log
     = (Inl (OtherException n), log @ concat (map logged pre))"
proof (induction pre arbitrary: products log)
  case Nil
  then show ?case by simp
next
  case (Cons r pre)
  then show ?case
  proof (cases r)
    case (Returns x)
    with Cons show ?thesis by (cases x) auto
  next
    case (Raises e)
    with Cons show ?thesis by (cases e) auto
  qed
qed

text \<open>
  C8, as amended: for every list of results each of which returns a value or fails with
  \<^verbatim>\<open>MissingMetadataError\<close> or \<^verbatim>\<open>ExcludedObjectException\<close>, \<^verbatim>\<open>extract_products\<close> does not
  raise and returns exactly the products returned, in order; each
  \<^verbatim>\<open>MissingMetadataError\<close> is logged as a warning and each \<^verbatim>\<open>ExcludedObjectException\<close> at
  debug level, and the result is skipped. A result that fails with any other exception
  is not caught: \<^verbatim>\<open>extract_products\<close> raises it at the first such result, after logging
  the failures before it, and returns no product.
\<close>

theorem extract_products_partition:
  "(list_all (\<lambda>r. \<not> uncaught r) results \<longrightarrow>
      extract_products results
        = (Inr (concat (map returned_product results)), concat (map logged results)))
   \<and> (list_all (\<lambda>r. \<not> uncaught r) pre \<longrightarrow>
      extract_products (pre @ Raises (OtherException n) # post)
        = (Inl (OtherException n), concat (map logged pre)))"
  by (simp add: extract_products_def extract_loop_caught extract_loop_uncaught)

theorem extract_products_partition_witness:
  "extract_products
     [Returns (Some ''product 1''), Raises MissingMetadataError,
      Raises (ExcludedObjectException Excluded_class), Returns None,
      Returns (Some ''product 2'')]
   = (Inr [''product 1'', ''product 2''],
      [(Warn, MissingMetadataError), (Debug, ExcludedObjectException Excluded_class)])"
proof -
  have caught: "list_all (\<lambda>r. \<not> uncaught r)
     [Returns (Some ''product 1''), Raises MissingMetadataError,
      Raises (ExcludedObjectException Excluded_class), Returns None,
      Returns (Some ''product 2'')]"
    by simp
  from extract_products_partition [THEN conjunct1, THEN mp, OF caught]
  show ?thesis by simp
qed

text \<open>
  C8, as stated, fails for a result that failed with another exception (an error of the
  iRODS client, say): the exception leaves \<^verbatim>\<open>extract_products\<close>, and the products of the
  other results are lost with it.
\<close>

theorem extract_products_raises:
  "extract_products
     [Returns (Some ''product 1''), Raises (OtherException ''RodsError''),
      Returns (Some ''product 2'')]
   = (Inl (OtherException ''RodsError''), [])"
  by (simp add: extract_products_def)

text \<open>
  C9, as amended: for every data object whose collection path (\<^verbatim>\<open>obj.path\<close>, which would
  be the product's \<^verbatim>\<open>irods_root_collection\<close>) contains \<^verbatim>\<open>ranger\<close>, \<^verbatim>\<open>create_product_dict\<close>
  raises \<^verbatim>\<open>ExcludedObjectException\<close> and gives no product, whatever the extension and the
  metadata are.
\<close>

theorem create_product_dict_ranger:
  assumes "contains (path (irods obj_path)) ''ranger''"
  shows "create_product_dict irods obj_path ext = Inl (ExcludedObjectException Excluded_class)"
  using assms by (simp add: create_product_dict_def)

text \<open>
  A cram file with a product id in a collection of cellranger output: its extension is
  the one asked for, and it is excluded.
\<close>

theorem create_product_dict_ranger_witness:
  "contains (path (example_irods ''/seq/illumina/cellranger/24338/24338_1#1.cram'')) ''ranger''
   \<and> last (split CHR ''.'' (name (example_irods
        ''/seq/illumina/cellranger/24338/24338_1#1.cram''))) = ''cram''
   \<and> create_product_dict example_irods ''/seq/illumina/cellranger/24338/24338_1#1.cram''
        ''cram''
       = Inl (ExcludedObjectException Excluded_class)"
proof -
  have r: "contains (path (example_irods ''/seq/illumina/cellranger/24338/24338_1#1.cram''))
             ''ranger''"
    by (simp add: example_irods_def contains_def sublist_Cons_right)
  have "last (split CHR ''.'' (name (example_irods
        ''/seq/illumina/cellranger/24338/24338_1#1.cram''))) = ''cram''"
    by (simp add: example_irods_def)
  with r create_product_dict_ranger
      [of example_irods "''/seq/illumina/cellranger/24338/24338_1#1.cram''" "''cram''"]
  show ?thesis
    by blast
qed

text \<open>
  C9, as stated, fails for a data object whose path contains \<^verbatim>\<open>ranger\<close> in its name
  only: the test reads \<^verbatim>\<open>obj.path\<close>, the collection, and the cram file
  \<^verbatim>\<open>/seq/24338/cellranger.cram\<close> with a product id gives its product.
\<close>

theorem ranger_in_name_not_excluded:
  "contains ''/seq/24338/cellranger.cram'' ''ranger''
   \<and> path (example_irods ''/seq/24338/cellranger.cram'') @ ''/''
       @ name (example_irods ''/seq/24338/cellranger.cram'')
       = ''/seq/24338/cellranger.cram''
   \<and> create_product_dict example_irods ''/seq/24338/cellranger.cram'' ''cram''
       = Inr [''seq_platform_name'' \<mapsto> ''illumina'',
              ''pipeline_name'' \<mapsto> ''npg-prod'',
              ''irods_root_collection'' \<mapsto> ''/seq/24338'',
              ''irods_data_relative_path'' \<mapsto> ''cellranger.cram'',
              ''id_product'' \<mapsto> ''abc'']"
  by (simp add: example_irods_def contains_def create_product_dict_def ILLUMINA_def
        NPG_PROD_def unwanted_def Let_def sublist_Cons_right)

lemma read_metadata_unwanted:
  "list_ex unwanted metas \<Longrightarrow>
   read_metadata metas product = Inl (ExcludedObjectException Excluded_object_class)"
  by (induction metas arbitrary: product) (auto simp: Let_def)

text \<open>
  C10: for every data object whose metadata has an entry that excludes it (tag index
  \<^verbatim>\<open>0\<close>, a reference containing \<^verbatim>\<open>PhiX\<close>, a component containing \<^verbatim>\<open>subset\<close>),
  \<^verbatim>\<open>create_product_dict\<close> raises \<^verbatim>\<open>ExcludedObjectException\<close> and never
  \<^verbatim>\<open>MissingMetadataError\<close>, whether or not there is an \<^verbatim>\<open>id_product\<close> and whatever the
  extension is.
\<close>

theorem create_product_dict_excluded_first:
  assumes "list_ex unwanted (metadata (irods obj_path))"
  shows "(\<exists>m. create_product_dict irods obj_path ext = Inl (ExcludedObjectException m))
     \<and> create_product_dict irods obj_path ext \<noteq> Inl MissingMetadataError"
  using assms by (simp add: create_product_dict_def read_metadata_unwanted Let_def)

text \<open>
  A cram file with tag index 0 and no product id is excluded, not reported as lacking
  metadata.
\<close>

theorem create_product_dict_excluded_first_witness:
  "list_ex unwanted (metadata (example_irods ''/seq/24338/24338_1#0.cram''))
   \<and> create_product_dict example_irods ''/seq/24338/24338_1#0.cram'' ''cram''
       = Inl (ExcludedObjectException Excluded_object_class)"
proof -
  have u: "list_ex unwanted (metadata (example_irods ''/seq/24338/24338_1#0.cram''))"
    by (simp add: example_irods_def unwanted_def)
  from u create_product_dict_excluded_first
      [of example_irods "''/seq/24338/24338_1#0.cram''" "''cram''"]
  obtain m where
    "create_product_dict example_irods ''/seq/24338/24338_1#0.cram'' ''cram''
       = Inl (ExcludedObjectException m)"
    by blast
  moreover have
    "create_product_dict example_irods ''/seq/24338/24338_1#0.cram'' ''cram''
       = Inl (ExcludedObjectException Excluded_object_class)"
    by (simp add: create_product_dict_def example_irods_def unwanted_def contains_def
          sublist_Cons_right Let_def)
  ultimately show ?thesis using u by simp
qed

text \<open>
  A cram file outside every exclusion gives its product, with the pipeline name of the
  alternative process; the same file asked for as a bam file is excluded.
\<close>

lemma create_product_dict_example:
  "\<exists>product. create_product_dict example_irods ''/seq/24338/24338_1#1.cram'' ''cram''
       = Inr product
     \<and> product ''seq_platform_name'' = Some ''illumina''
     \<and> product ''pipeline_name'' = Some ''alt_x''
     \<and> product ''irods_root_collection'' = Some ''/seq/24338''
     \<and> product ''irods_data_relative_path'' = Some ''24338_1#1.cram''
     \<and> product ''id_product'' = Some ''abc''"
  by (simp add: example_irods_def contains_def create_product_dict_def ILLUMINA_def
        NPG_PROD_def unwanted_def Let_def sublist_Cons_right)

lemma create_product_dict_example_bam:
  "create_product_dict example_irods ''/seq/24338/24338_1#1.cram'' ''bam''
     = Inl (ExcludedObjectException Excluded_class)"
  by (simp add: example_irods_def create_product_dict_def)

end
